theory Spec2Isabelle
  imports Complex_Main "HOL-Library.Sublist"
begin

section \<open>Decoded JSON values\<close>

text \<open>
  The realtime package never scans JSON text itself: it hands the bytes to a JSON
  library and works on what comes back. A decoded value is what \<open>json.Unmarshal\<close> puts
  into an \<open>interface{}\<close>: \<open>nil\<close>, a \<open>bool\<close>, a \<open>float64\<close>, a \<open>string\<close>, a
  \<open>[]interface{}\<close> or a \<open>map[string]interface{}\<close>. A \<open>float64\<close> is only stored and
  compared here, never computed with, and is written as a \<open>real\<close>. An object keeps its
  members in the order of the text.
\<close>

datatype json =
    JNull
  | JBool bool
  | JNumber real
  | JString string
  | JArray "json list"
  | JObject "(string \<times> json) list"

text \<open>An \<open>error\<close> value is represented by the text of its \<open>Error()\<close> method.\<close>

type_synonym error = string

text \<open>
  \<open>json.Unmarshal(b, &in)\<close> with \<open>in\<close> a \<open>map[string]interface{}\<close>. The argument is
  either the library's error for text that is not JSON (\<open>Inl\<close>) or the decoded value.
  An object fills the map member by member, so a repeated key keeps its last value;
  \<open>null\<close> leaves the map \<open>nil\<close>, which reads as the empty map; any other value is a
  type error of the library.
\<close>

fun json_Unmarshal_map :: "error + json \<Rightarrow> error + (string \<rightharpoonup> json)" where
  "json_Unmarshal_map (Inl e) = Inl e"
| "json_Unmarshal_map (Inr (JObject kvs)) = Inr (map_of (rev kvs))"
| "json_Unmarshal_map (Inr JNull) = Inr Map.empty"
| "json_Unmarshal_map (Inr v) =
     Inl ''json: cannot unmarshal into Go value of type map[string]interface {}''"

section \<open>The order book (\<open>OrderBook\<close>, \<open>Book\<close>, \<open>UnmarshalJSON\<close>)\<close>

text \<open>
  \<open>time.Time\<close> is an instant, written as nanoseconds since the Unix epoch. The zero
  \<open>time.Time\<close> is January 1 of year 1, 00:00:00 UTC.
\<close>

type_synonym Time = int

definition zero_Time :: Time where
  "zero_Time = - 62135596800 * 1000000000"

record Book =
  Price :: real
  Size :: real

record OrderBook =
  Symbol :: string
  Timestamp :: Time
  Bids :: "Book list"
  Asks :: "Book list"

definition zero_Book :: Book where
  "zero_Book = \<lparr>Price = 0, Size = 0\<rparr>"

definition zero_OrderBook :: OrderBook where
  "zero_OrderBook = \<lparr>Symbol = [], Timestamp = zero_Time, Bids = [], Asks = []\<rparr>"

definition bookname :: "string list" where
  "bookname = [''asks'', ''bids'']"

text \<open>The type assertions \<open>v.([]interface{})\<close> and \<open>v.(float64)\<close> with their \<open>ok\<close> flag.\<close>

fun as_array :: "json option \<Rightarrow> json list option" where
  "as_array (Some (JArray xs)) = Some xs"
| "as_array _ = None"

text \<open>\<open>x, _ = v.(float64)\<close>: the flag is discarded and a failed assertion leaves 0.\<close>

fun float64_or_zero :: "json \<Rightarrow> real" where
  "float64_or_zero (JNumber x) = x"
| "float64_or_zero _ = 0"

text \<open>
  The body of the inner loop at index \<open>i\<close> with element \<open>v\<close>: both \<open>continue\<close>
  statements leave \<open>books\<close> as it is, otherwise the two fields of \<open>books[i]\<close> are
  assigned.
\<close>

definition row_step :: "Book list \<Rightarrow> nat \<Rightarrow> json \<Rightarrow> Book list" where
  "row_step books i v =
     (case as_array (Some v) of
        None \<Rightarrow> books
      | Some book \<Rightarrow>
          if length book \<noteq> 2 then books
          else books[i := \<lparr>Price = float64_or_zero (book ! 0),
                           Size = float64_or_zero (book ! 1)\<rparr>])"

text \<open>\<open>for i, v := range body\<close>, started at index \<open>i\<close> on the rest of \<open>body\<close>.\<close>

fun rows_loop :: "Book list \<Rightarrow> nat \<Rightarrow> json list \<Rightarrow> Book list" where
  "rows_loop books i [] = books"
| "rows_loop books i (v # vs) = rows_loop (row_step books i v) (Suc i) vs"

text \<open>\<open>books := make([]Book, len(body))\<close> followed by the loop over \<open>body\<close>.\<close>

definition decode_books :: "json list \<Rightarrow> Book list" where
  "decode_books body = rows_loop (replicate (length body) zero_Book) 0 body"

text \<open>
  \<open>for i := range bookname\<close>: the state is the receiver and the result is the receiver
  with the error returned, if any. A key that is absent or not an array returns at
  once, keeping what earlier rounds assigned.
\<close>

fun books_loop :: "(string \<rightharpoonup> json) \<Rightarrow> OrderBook \<Rightarrow> string list \<Rightarrow> OrderBook \<times> error option" where
  "books_loop inp p [] = (p, None)"
| "books_loop inp p (name # names) =
     (case as_array (inp name) of
        None \<Rightarrow> (p, Some ''data has not type'')
      | Some body \<Rightarrow>
          (let books = decode_books body
           in if name = ''ask'' then books_loop inp (p\<lparr>Asks := books\<rparr>) names
              else books_loop inp (p\<lparr>Bids := books\<rparr>) names))"

text \<open>
  \<open>(*OrderBook).UnmarshalJSON\<close>. Two library calls are parameters: \<open>Sprintf_v\<close> is
  \<open>fmt.Sprintf("%v", x)\<close> of a map lookup (\<open>None\<close> for a missing key, which prints as
  \<open><nil>\<close>), and \<open>time_Parse\<close> is \<open>time.Parse(time.RFC3339Nano, s)\<close>, \<open>None\<close> when it
  returns an error, in which case the zero time is stored.
\<close>

definition UnmarshalJSON ::
  "(json option \<Rightarrow> string) \<Rightarrow> (string \<Rightarrow> Time option) \<Rightarrow> OrderBook \<Rightarrow> error + json
     \<Rightarrow> OrderBook \<times> error option" where
  "UnmarshalJSON Sprintf_v time_Parse p b =
     (case json_Unmarshal_map b of
        Inl err \<Rightarrow> (p, Some err)
      | Inr inp \<Rightarrow>
          (let p1 = p\<lparr>Symbol := Sprintf_v (inp ''symbol'')\<rparr>;
               p2 = p1\<lparr>Timestamp :=
                      (case time_Parse (Sprintf_v (inp ''timestamp'')) of
                         None \<Rightarrow> zero_Time | Some t \<Rightarrow> t)\<rparr>
           in books_loop inp p2 bookname))"

section \<open>Package \<open>strings\<close>\<close>

text \<open>The four functions of Go's \<open>strings\<close> package that the session uses, on byte strings.\<close>

definition HasPrefix :: "string \<Rightarrow> string \<Rightarrow> bool" where
  "HasPrefix s pre \<longleftrightarrow> length pre \<le> length s \<and> take (length pre) s = pre"

definition HasSuffix :: "string \<Rightarrow> string \<Rightarrow> bool" where
  "HasSuffix s suf \<longleftrightarrow> length suf \<le> length s \<and> drop (length s - length suf) s = suf"

text \<open>\<open>strings.Index\<close>: the position of the first occurrence, or -1.\<close>

fun Index :: "string \<Rightarrow> string \<Rightarrow> int" where
  "Index [] substr = (if substr = [] then 0 else - 1)"
| "Index (c # cs) substr =
     (if HasPrefix (c # cs) substr then 0
      else (let i = Index cs substr in if i < 0 then - 1 else i + 1))"

definition Contains :: "string \<Rightarrow> string \<Rightarrow> bool" where
  "Contains s substr \<longleftrightarrow> 0 \<le> Index s substr"

section \<open>Event kinds, requests and events\<close>

datatype Types =
    All_Types
  | Announcement
  | Chat
  | Connected
  | Funding
  | Instrument
  | Insurance
  | Liquidation
  | Orderbook
  | OrderbookL
  | Notifications
  | Quote
  | Settlement
  | Trade
  | TradeBin
  | Affiliate
  | Execution
  | Order
  | Margin
  | Position
  | NotificationsForPrivate
  | Transact
  | Wallet
  | Undefined
  | Error

fun Types_String :: "Types \<Rightarrow> string" where
  "Types_String Announcement = ''announcement''"
| "Types_String Chat = ''chat''"
| "Types_String Connected = ''connected''"
| "Types_String Funding = ''funding''"
| "Types_String Instrument = ''instrument''"
| "Types_String Insurance = ''insurance''"
| "Types_String Liquidation = ''liquidation''"
| "Types_String Orderbook = ''orderBook''"
| "Types_String OrderbookL = ''orderBookL''"
| "Types_String Notifications = ''publicNotifications''"
| "Types_String Quote = ''quote''"
| "Types_String Settlement = ''settlement''"
| "Types_String Trade = ''trade''"
| "Types_String TradeBin = ''tradeBin''"
| "Types_String Affiliate = ''affiliate''"
| "Types_String Execution = ''execution''"
| "Types_String Order = ''order''"
| "Types_String Margin = ''margin''"
| "Types_String Position = ''position''"
| "Types_String NotificationsForPrivate = ''privateNotifications''"
| "Types_String Transact = ''transact''"
| "Types_String Wallet = ''wallet''"
| "Types_String Error = ''error''"
| "Types_String _ = ''undefined''"

text \<open>An element of \<open>Args []interface{}\<close> is a string or an \<open>int64\<close>.\<close>

datatype arg = AStr string | AInt int

record Request =
  Op :: string
  Args :: "arg list"
  ID :: int

record Auth =
  Key :: string
  Secret :: string

record Client =
  Auth :: "Auth option"

text \<open>
  The event pushed to the caller. Of the typed slices only \<open>Orderbook\<close> has its element
  type in this package; the other slices hold data structures of package \<open>bitmex\<close>,
  and \<open>'p\<close> stands for the decoded slice of whichever kind \<open>Types\<close> names.
  \<open>Results\<close> is an \<open>error\<close>, \<open>None\<close> for \<open>nil\<close>.
\<close>

record 'p Response =
  Types :: Types
  ProductCode :: string
  Action :: string
  Orderbook_rows :: "OrderBook list"
  Payload :: "'p option"
  Results :: "error option"

definition zero_Response :: "'p Response" where
  "zero_Response = \<lparr>Types = All_Types, ProductCode = [], Action = [],
     Orderbook_rows = [], Payload = None, Results = None\<rparr>"

section \<open>The world of a session\<close>

text \<open>
  What \<open>Connect\<close> gets from outside the package, as one record:
  \<^item> \<open>Dial\<close>: the result of \<open>websocket.DefaultDialer.Dial\<close>, \<open>None\<close> when it connects;
  \<^item> \<open>WriteJSON\<close>: the error, if any, of writing a request to the connection;
  \<^item> \<open>Now\<close>: \<open>time.Now()\<close> when the authentication request is built;
  \<^item> \<open>hmac_sha256\<close>: key and message to the 32 bytes of \<open>hmac.New(sha256.New, key)\<close>;
  \<^item> \<open>json_Unmarshal\<close>: \<open>json.Unmarshal(data, &r.X)\<close> into the slice of package
    \<open>bitmex\<close> that belongs to a kind, \<open>None\<close> when it returns an error;
  \<^item> \<open>Sprintf_v\<close> and \<open>time_Parse\<close>: as for \<open>UnmarshalJSON\<close>;
  \<^item> \<open>XBTUSD\<close> and \<open>ETHUSD\<close>: the two symbol constants of package \<open>bitmex\<close>.
\<close>

record 'p world =
  Dial :: "error option"
  WriteJSON :: "Request \<Rightarrow> error option"
  Now :: Time
  hmac_sha256 :: "string \<Rightarrow> string \<Rightarrow> string"
  json_Unmarshal :: "Types \<Rightarrow> json \<Rightarrow> 'p option"
  Sprintf_v :: "json option \<Rightarrow> string"
  time_Parse :: "string \<Rightarrow> Time option"
  XBTUSD :: string
  ETHUSD :: string

text \<open>
  What happens on the connection, in order. Logging is left out, and so is the
  keep-alive worker, which writes its text frames beside the session and never
  changes what \<open>Connect\<close> returns.
\<close>

datatype 'p action =
    Write Request "error option"
  | ReadMessage
  | Push "'p Response"
  | CloseConn

section \<open>Authentication (\<open>signture\<close>)\<close>

definition Minute :: int where
  "Minute = 60 * 1000000000"

definition Add :: "Time \<Rightarrow> int \<Rightarrow> Time" where
  "Add t d = t + d"

definition Unix :: "Time \<Rightarrow> int" where
  "Unix t = t div 1000000000"

text \<open>The verb \<open>%d\<close> of \<open>fmt.Sprintf\<close> on an \<open>int64\<close>.\<close>

definition digit_char :: "nat \<Rightarrow> char" where
  "digit_char d = ''0123456789abcdef'' ! d"

function dec_digits :: "nat \<Rightarrow> string" where
  "dec_digits n = (if n < 10 then [digit_char n] else dec_digits (n div 10) @ [digit_char (n mod 10)])"
  by pat_completeness auto
termination
  by (relation "measure id") auto

declare dec_digits.simps [simp del]

definition Sprintf_d :: "int \<Rightarrow> string" where
  "Sprintf_d i = (if i < 0 then CHR ''-'' # dec_digits (nat (- i)) else dec_digits (nat i))"

text \<open>\<open>hex.EncodeToString\<close>: two lower-case hexadecimal digits for each byte.\<close>

definition EncodeToString :: "string \<Rightarrow> string" where
  "EncodeToString bs =
     concat (map (\<lambda>b. [digit_char (of_char b div 16), digit_char (of_char b mod 16)]) bs)"

text \<open>
  \<open>signture\<close> builds the request and writes it; the result is what happened on the
  connection and the error returned.
\<close>

definition signture_request :: "'p world \<Rightarrow> Auth \<Rightarrow> Request" where
  "signture_request w a =
     (let expire = Unix (Add (Now w) (24 * 60 * Minute));
          payload = ''GET/realtime'' @ Sprintf_d expire;
          sign = EncodeToString (hmac_sha256 w (Secret a) payload);
          req = \<lparr>Op = ''authKeyExpires'', Args = [], ID = 1\<rparr>;
          req = req\<lparr>Args := Args req @ [AStr (Key a)]\<rparr>;
          req = req\<lparr>Args := Args req @ [AInt expire]\<rparr>;
          req = req\<lparr>Args := Args req @ [AStr sign]\<rparr>
      in req)"

definition signture :: "'p world \<Rightarrow> Auth \<Rightarrow> 'p action list \<times> error option" where
  "signture w a =
     (let req = signture_request w a
      in ([Write req (WriteJSON w req)], WriteJSON w req))"

section \<open>Subscriptions (\<open>subscribe\<close>, \<open>unsubscribe\<close>)\<close>

text \<open>
  \<open>symbols\<close> is a slice that the code compares with \<open>nil\<close>: \<open>None\<close> is the \<open>nil\<close>
  slice, \<open>Some []\<close> an empty slice that is not \<open>nil\<close>. The two loops append to
  \<open>args\<close>; either branch then appends one request.
\<close>

definition subscribe_requests :: "string list \<Rightarrow> string list option \<Rightarrow> Request list" where
  "subscribe_requests channels symbols =
     (case symbols of
        Some syms \<Rightarrow>
          (let args = fold (\<lambda>c args. fold (\<lambda>s args. args @ [AStr (c @ '':'' @ s)]) syms args)
                        channels []
           in [] @ [\<lparr>Op = ''subscribe'', Args = args, ID = 0\<rparr>])
      | None \<Rightarrow>
          (let args = fold (\<lambda>c args. args @ [AStr c]) channels []
           in [] @ [\<lparr>Op = ''subscribe'', Args = args, ID = 0\<rparr>]))"

text \<open>The loop that writes the requests stops at the first write error.\<close>

fun write_requests :: "'p world \<Rightarrow> Request list \<Rightarrow> 'p action list \<times> error option" where
  "write_requests w [] = ([], None)"
| "write_requests w (r # rs) =
     (case WriteJSON w r of
        Some err \<Rightarrow> ([Write r (Some err)], Some err)
      | None \<Rightarrow> (case write_requests w rs of (t, e) \<Rightarrow> (Write r None # t, e)))"

definition subscribe ::
  "'p world \<Rightarrow> string list \<Rightarrow> string list option \<Rightarrow> 'p action list \<times> (error + Request list)" where
  "subscribe w channels symbols =
     (let requests = subscribe_requests channels symbols
      in case write_requests w requests of
           (t, Some err) \<Rightarrow> (t, Inl err)
         | (t, None) \<Rightarrow> (t, Inr requests))"

text \<open>\<open>unsubscribe\<close> flips the operation of each request and writes it; a write error is only logged.\<close>

fun unsubscribe :: "'p world \<Rightarrow> Request list \<Rightarrow> 'p action list" where
  "unsubscribe w [] = []"
| "unsubscribe w (r # rs) =
     (let r' = r\<lparr>Op := ''unsubscribe''\<rparr>
      in Write r' (WriteJSON w r') # unsubscribe w rs)"

section \<open>Classifying and decoding a frame\<close>

text \<open>
  A frame is the text read from the connection together with the top-level members
  that \<open>jsonparser\<close> finds in it (none when the text is not a JSON object, as for a
  plain \<open>pong\<close>). \<open>jsonparser\<close> scans from the left, so the first member with the key
  is the one found.
\<close>

record frame =
  msg :: string
  members :: "(string \<times> json) list"

text \<open>\<open>jsonparser.GetString\<close>: an error when the key is absent or its value is not a string.\<close>

definition GetString :: "frame \<Rightarrow> string \<Rightarrow> string option" where
  "GetString f key = (case map_of (members f) key of Some (JString s) \<Rightarrow> Some s | _ \<Rightarrow> None)"

text \<open>\<open>jsonparser.Get\<close>: an error when the key is absent.\<close>

definition Get :: "frame \<Rightarrow> string \<Rightarrow> json option" where
  "Get f key = map_of (members f) key"

text \<open>The cases of the first \<open>switch\<close>, in their order: the first prefix that matches decides.\<close>

definition known_prefixes :: "(string \<times> Types) list" where
  "known_prefixes =
     [(''quote'', Quote),
      (''orderBookL'', OrderbookL),
      (''orderBook'', Orderbook),
      (''tradeBin'', TradeBin),
      (''trade'', Trade),
      (''announcement'', Announcement),
      (''chat'', Chat),
      (''connected'', Connected),
      (''funding'', Funding),
      (''instrument'', Instrument),
      (''insurance'', Insurance),
      (''settlement'', Settlement),
      (''publicNotifications'', Notifications),
      (''execution'', Execution),
      (''order'', Order),
      (''margin'', Margin),
      (''position'', Position),
      (''transact'', Transact),
      (''wallet'', Wallet),
      (''privateNotifications'', NotificationsForPrivate),
      (''affiliate'', Affiliate)]"

fun first_prefix :: "(string \<times> Types) list \<Rightarrow> string \<Rightarrow> Types option" where
  "first_prefix [] name = None"
| "first_prefix ((pre, t) # rest) name =
     (if HasPrefix name pre then Some t else first_prefix rest name)"

definition classify :: "string \<Rightarrow> Types option" where
  "classify name = first_prefix known_prefixes name"

text \<open>
  \<open>json.Unmarshal(data, &r.Orderbook)\<close>: an array decodes element by element through
  \<open>UnmarshalJSON\<close> into fresh order books and stops at the first error; \<open>null\<close> leaves
  the slice \<open>nil\<close>; anything else is an error.
\<close>

fun Unmarshal_elements :: "'p world \<Rightarrow> json list \<Rightarrow> OrderBook list option" where
  "Unmarshal_elements w [] = Some []"
| "Unmarshal_elements w (x # xs) =
     (case UnmarshalJSON (Sprintf_v w) (time_Parse w) zero_OrderBook (Inr x) of
        (p, Some err) \<Rightarrow> None
      | (p, None) \<Rightarrow> map_option ((#) p) (Unmarshal_elements w xs))"

fun Unmarshal_Orderbook :: "'p world \<Rightarrow> json \<Rightarrow> OrderBook list option" where
  "Unmarshal_Orderbook w (JArray xs) = Unmarshal_elements w xs"
| "Unmarshal_Orderbook w JNull = Some []"
| "Unmarshal_Orderbook w _ = None"

text \<open>
  The second \<open>switch\<close>: the three known symbols by suffix first, then the text after
  the first colon, then \<open>undefined\<close>.
\<close>

definition productCode :: "'p world \<Rightarrow> string \<Rightarrow> string" where
  "productCode w name =
     (if HasSuffix name (XBTUSD w) then XBTUSD w
      else if HasSuffix name (ETHUSD w) then ETHUSD w
      else if HasSuffix name ''XRPUSD'' then ''XRPUSD''
      else if Contains name '':'' then drop (nat (Index name '':'' + 1)) name
      else ''undefined'')"

text \<open>
  The first \<open>switch\<close> applied to the topic and the data: \<open>None\<close> is a \<open>continue\<close>
  after a decoding error. The default case decodes nothing and stores the text of the
  frame as the error of the event.
\<close>

definition decode_kind :: "'p world \<Rightarrow> frame \<Rightarrow> string \<Rightarrow> json \<Rightarrow> 'p Response \<Rightarrow> 'p Response option" where
  "decode_kind w f name data r =
     (case classify name of
        None \<Rightarrow> Some (r\<lparr>Types := Undefined, Results := Some (msg f)\<rparr>)
      | Some Orderbook \<Rightarrow>
          (case Unmarshal_Orderbook w data of
             None \<Rightarrow> None
           | Some obs \<Rightarrow> Some (r\<lparr>Types := Orderbook, Orderbook_rows := obs\<rparr>))
      | Some t \<Rightarrow>
          (case json_Unmarshal w t data of
             None \<Rightarrow> None
           | Some x \<Rightarrow> Some (r\<lparr>Types := t, Payload := Some x\<rparr>)))"

text \<open>
  One round of the read loop after a successful read, up to the \<open>select\<close>: the event
  to push, or \<open>None\<close> when the round ends in a \<open>continue\<close>.
\<close>

definition handle_frame :: "'p world \<Rightarrow> frame \<Rightarrow> 'p Response option" where
  "handle_frame w f =
     (case GetString f ''table'' of
        None \<Rightarrow> None
      | Some name \<Rightarrow>
          (let r = zero_Response\<lparr>Action :=
                     (case GetString f ''action'' of None \<Rightarrow> [] | Some a \<Rightarrow> a)\<rparr>
           in case Get f ''data'' of
                None \<Rightarrow> None
              | Some data \<Rightarrow>
                  (case decode_kind w f name data r of
                     None \<Rightarrow> None
                   | Some r' \<Rightarrow> Some (r'\<lparr>ProductCode := productCode w name\<rparr>))))"

section \<open>The session (\<open>New\<close>, \<open>Connect\<close>)\<close>

text \<open>
  What the connection and the caller's context do while the session streams is a
  script, one entry for each call of \<open>ReadMessage\<close>: the call fails with an error, or
  it returns a frame, and then the entry also says what \<open>ctx.Err()\<close> is when the
  \<open>select\<close> after this frame looks at \<open>ctx.Done()\<close> (\<open>None\<close> while the context is not
  done). Every call returns, since a read deadline is set before it.
\<close>

datatype read_event = ReadErr error | ReadMsg frame "error option"

text \<open>
  \<open>fmt.Errorf("can't receive error: %v", err)\<close>; the apostrophe is the character
  with code 0x27.
\<close>

definition receive_error :: "error \<Rightarrow> error" where
  "receive_error e = ''can'' @ [CHR 0x27] @ ''t receive error: '' @ e"

text \<open>
  The worker given to the error group. It returns only with an error; \<open>None\<close> means
  that it is still running when the script ends. The consumer is taken to receive
  every event, so that the send on the channel returns.
\<close>

fun read_loop :: "'p world \<Rightarrow> read_event list \<Rightarrow> 'p action list \<times> error option" where
  "read_loop w [] = ([], None)"
| "read_loop w (ReadErr e # evs) = ([ReadMessage], Some (receive_error e))"
| "read_loop w (ReadMsg f ctx # evs) =
     (case handle_frame w f of
        None \<Rightarrow> (case read_loop w evs of (t, res) \<Rightarrow> (ReadMessage # t, res))
      | Some r \<Rightarrow>
          (case ctx of
             Some ctx_err \<Rightarrow> ([ReadMessage], Some ctx_err)
           | None \<Rightarrow> (case read_loop w evs of (t, res) \<Rightarrow> (ReadMessage # Push r # t, res))))"

text \<open>\<open>New\<close> returns \<open>nil\<close> when dialling fails. \<open>ctx_auth\<close> is \<open>ctx.Value(AUTHKEY).(*Auth)\<close>.\<close>

definition New :: "'p world \<Rightarrow> Auth option \<Rightarrow> Client option" where
  "New w ctx_auth =
     (case Dial w of
        Some err \<Rightarrow> None
      | None \<Rightarrow> Some \<lparr>Auth = ctx_auth\<rparr>)"

text \<open>
  How a call of \<open>Connect\<close> ends: it panics, it returns an \<open>error\<close> (\<open>None\<close> for
  \<open>nil\<close>), or it has not returned when the script ends.
\<close>

datatype outcome = Panic | Returned "error option" | Running

definition Canceled :: error where
  "Canceled = ''context canceled''"

text \<open>
  \<open>Connect\<close>. With \<open>p\<close> \<open>nil\<close> the read of \<open>p.Auth\<close> is a nil pointer dereference, and
  the deferred \<open>p.Close()\<close> reads \<open>p.conn\<close> from the same \<open>nil\<close>: nothing reaches the
  connection. The deferred calls run when the function returns, \<open>unsubscribe\<close> first
  (it is deferred last, and only once \<open>subscribe\<close> has returned without error), then
  \<open>Close\<close>.
\<close>

definition Connect ::
  "'p world \<Rightarrow> Auth option \<Rightarrow> string list \<Rightarrow> string list option \<Rightarrow> read_event list
     \<Rightarrow> 'p action list \<times> outcome" where
  "Connect w ctx_auth channels symbols script =
     (case New w ctx_auth of
        None \<Rightarrow> ([], Panic)
      | Some p \<Rightarrow>
          (case (case Auth p of None \<Rightarrow> ([], None) | Some a \<Rightarrow> signture w a) of
             (t1, Some err) \<Rightarrow> (t1 @ [CloseConn], Returned (Some err))
           | (t1, None) \<Rightarrow>
               (case subscribe w channels symbols of
                  (t2, Inl err) \<Rightarrow>
                    (t1 @ t2 @ [CloseConn], Returned (Some (''disconnect '' @ err)))
                | (t2, Inr requests) \<Rightarrow>
                    (case read_loop w script of
                       (t3, None) \<Rightarrow> (t1 @ t2 @ t3, Running)
                     | (t3, Some err) \<Rightarrow>
                         (t1 @ t2 @ t3 @ unsubscribe w requests @ [CloseConn],
                          Returned (if Contains err Canceled
                                    then Some (''context stop outside '' @ err)
                                    else None))))))"

section \<open>A world for concrete runs\<close>

text \<open>
  A world in which dialling and every write succeed, used to run the definitions on
  concrete inputs. The two symbol constants have the values of their names.
\<close>

definition quiet_world :: "unit world" where
  "quiet_world =
     \<lparr>Dial = None, WriteJSON = (\<lambda>r. None), Now = 1500000000123456789,
      hmac_sha256 = (\<lambda>key m. []), json_Unmarshal = (\<lambda>t data. Some ()),
      Sprintf_v = (\<lambda>x. []), time_Parse = (\<lambda>s. None),
      XBTUSD = ''XBTUSD'', ETHUSD = ''ETHUSD''\<rparr>"

text \<open>
  A frame with the fields \<open>table\<close>, \<open>action\<close> and \<open>data\<close> whose topic \<open>foo\<close> is not
  known, and a frame of the topic \<open>trade:XBTUSD\<close>.
\<close>

definition unknown_frame :: frame where
  "unknown_frame =
     \<lparr>msg = ''text of the frame with the topic foo'',
      members = [(''table'', JString ''foo''), (''action'', JString ''partial''),
                 (''data'', JArray [])]\<rparr>"

definition trade_frame :: frame where
  "trade_frame =
     \<lparr>msg = ''text of the frame with the topic trade:XBTUSD'',
      members = [(''table'', JString ''trade:XBTUSD''), (''action'', JString ''insert''),
                 (''data'', JArray [])]\<rparr>"

text \<open>The writes of a trace whose operation is \<open>unsubscribe\<close>.\<close>

fun is_unsubscribe :: "'p action \<Rightarrow> bool" where
  "is_unsubscribe (Write r res) \<longleftrightarrow> Op r = ''unsubscribe''"
| "is_unsubscribe _ \<longleftrightarrow> False"

section \<open>The row decoding as the specification words it\<close>

text \<open>
  The specification's reading of the row loop, for comparison with \<open>decode_books\<close>: a
  row that is a two-element array of numbers gives a \<open>Book\<close>, and any other row is
  skipped and gives nothing.
\<close>

definition spec_skipping_rows :: "json list \<Rightarrow> Book list" where
  "spec_skipping_rows body =
     [\<lparr>Price = x, Size = y\<rparr>. JArray [JNumber x, JNumber y] \<leftarrow> body]"

section \<open>Properties of the order-book decoder\<close>

lemma length_row_step: "length (row_step books i v) = length books"
  by (simp add: row_step_def split: option.splits)

lemma length_rows_loop: "length (rows_loop books i vs) = length books"
  by (induction vs arbitrary: books i) (simp_all add: length_row_step)

lemma row_step_other: "j \<noteq> i \<Longrightarrow> row_step books i v ! j = books ! j"
  by (simp add: row_step_def split: option.splits)

lemma rows_loop_before: "j < i \<Longrightarrow> rows_loop books i vs ! j = books ! j"
proof (induction vs arbitrary: books i)
  case Nil
  then show ?case by simp
next
  case (Cons v vs)
  have "rows_loop (row_step books i v) (Suc i) vs ! j = row_step books i v ! j"
    using Cons.prems by (intro Cons.IH) simp
  with Cons.prems show ?case by (simp add: row_step_other)
qed

lemma rows_loop_at:
  "k < length vs \<Longrightarrow> i + length vs \<le> length books \<Longrightarrow>
   rows_loop books i vs ! (i + k) = row_step books (i + k) (vs ! k) ! (i + k)"
proof (induction vs arbitrary: books i k)
  case Nil
  then show ?case by simp
next
  case (Cons v vs)
  show ?case
  proof (cases k)
    case 0
    then show ?thesis by (simp add: rows_loop_before)
  next
    case (Suc k')
    have len: "Suc i + length vs \<le> length (row_step books i v)"
      using Cons.prems by (simp add: length_row_step)
    have k': "k' < length vs" using Cons.prems Suc by simp
    have "rows_loop (row_step books i v) (Suc i) vs ! (Suc i + k')
            = row_step (row_step books i v) (Suc i + k') (vs ! k') ! (Suc i + k')"
      by (rule Cons.IH [OF k' len])
    also have "\<dots> = row_step books (Suc i + k') (vs ! k') ! (Suc i + k')"
      using Cons.prems Suc
      by (simp add: row_step_def length_row_step row_step_other split: option.splits)
    finally show ?thesis using Suc by simp
  qed
qed

lemma decode_books_nth:
  assumes "k < length body"
  shows "decode_books body ! k =
           (case body ! k of
              JArray [a, b] \<Rightarrow> \<lparr>Price = float64_or_zero a, Size = float64_or_zero b\<rparr>
            | _ \<Rightarrow> zero_Book)"
proof -
  let ?z = "replicate (length body) zero_Book"
  have "decode_books body ! k = row_step ?z k (body ! k) ! k"
    using rows_loop_at [of k body 0 ?z] assms by (simp add: decode_books_def)
  also have "\<dots> = (case body ! k of
              JArray [a, b] \<Rightarrow> \<lparr>Price = float64_or_zero a, Size = float64_or_zero b\<rparr>
            | _ \<Rightarrow> zero_Book)"
    using assms by (simp add: row_step_def split: json.splits list.splits)
  finally show ?thesis .
qed

lemma length_decode_books: "length (decode_books body) = length body"
  by (simp add: decode_books_def length_rows_loop)

lemma books_loop_bookname:
  "books_loop inp p bookname =
     (case as_array (inp ''asks'') of
        None \<Rightarrow> (p, Some ''data has not type'')
      | Some asks \<Rightarrow>
          (case as_array (inp ''bids'') of
             None \<Rightarrow> (p\<lparr>Bids := decode_books asks\<rparr>, Some ''data has not type'')
           | Some bids \<Rightarrow> (p\<lparr>Bids := decode_books bids\<rparr>, None)))"
  by (simp add: bookname_def split: option.splits)

lemma as_array_Some_iff: "as_array x = Some xs \<longleftrightarrow> x = Some (JArray xs)"
  by (cases x rule: as_array.cases) auto

lemma as_array_None_iff: "as_array x = None \<longleftrightarrow> (\<forall>xs. x \<noteq> Some (JArray xs))"
  by (cases x rule: as_array.cases) auto

section \<open>Claims about the order book\<close>

text \<open>
  C3. Whenever \<open>UnmarshalJSON\<close> returns no error, the rows under the key \<open>asks\<close> have
  not been stored into \<open>Asks\<close>: the name compared with is \<open>ask\<close>, which is neither of
  the two names iterated over, so both rounds assign to \<open>Bids\<close>. The field \<open>Asks\<close> is
  what it was before the call, hence empty for the fresh order book that decoding
  starts from, and \<open>Bids\<close> holds the rows decoded from the key \<open>bids\<close>.
\<close>

theorem UnmarshalJSON_bids_always_win:
  "(\<forall>p'. UnmarshalJSON fv tp p b = (p', None) \<longrightarrow>
      Asks p' = Asks p \<and>
      (\<exists>inp asks bids. json_Unmarshal_map b = Inr inp \<and>
         inp ''asks'' = Some (JArray asks) \<and> inp ''bids'' = Some (JArray bids) \<and>
         Bids p' = decode_books bids)) \<and>
   (\<forall>q. UnmarshalJSON fv tp zero_OrderBook b = (q, None) \<longrightarrow> Asks q = [])"
proof -
  have main: "Asks p' = Asks p0 \<and>
      (\<exists>inp asks bids. json_Unmarshal_map b = Inr inp \<and>
         inp ''asks'' = Some (JArray asks) \<and> inp ''bids'' = Some (JArray bids) \<and>
         Bids p' = decode_books bids)"
    if ok: "UnmarshalJSON fv tp p0 b = (p', None)" for p0 p'
  proof (cases "json_Unmarshal_map b")
    case (Inl e)
    with ok show ?thesis by (simp add: UnmarshalJSON_def)
  next
    case (Inr inp)
    with ok show ?thesis
      by (auto simp: UnmarshalJSON_def Let_def books_loop_bookname as_array_Some_iff
          split: option.splits)
  qed
  have "Asks q = []" if "UnmarshalJSON fv tp zero_OrderBook b = (q, None)" for q
    using main [OF that] by (simp add: zero_OrderBook_def)
  with main show ?thesis by blast
qed

theorem UnmarshalJSON_bids_always_win_witness:
  "UnmarshalJSON (\<lambda>x. ''XBTUSD'') (\<lambda>s. None) zero_OrderBook
     (Inr (JObject [(''asks'', JArray [JArray [JNumber 1, JNumber 2]]),
                    (''bids'', JArray [JArray [JNumber 3, JNumber 4]])]))
     = (\<lparr>Symbol = ''XBTUSD'', Timestamp = zero_Time,
          Bids = [\<lparr>Price = 3, Size = 4\<rparr>], Asks = []\<rparr>, None)
   \<and> Asks \<lparr>Symbol = ''XBTUSD'', Timestamp = zero_Time,
          Bids = [\<lparr>Price = 3, Size = 4\<rparr>], Asks = []\<rparr> = Asks zero_OrderBook"
proof -
  let ?b = "Inr (JObject [(''asks'', JArray [JArray [JNumber 1, JNumber 2]]),
                          (''bids'', JArray [JArray [JNumber 3, JNumber 4]])])"
  let ?q = "\<lparr>Symbol = ''XBTUSD'', Timestamp = zero_Time,
              Bids = [\<lparr>Price = 3, Size = 4\<rparr>], Asks = []\<rparr>"
  have run: "UnmarshalJSON (\<lambda>x. ''XBTUSD'') (\<lambda>s. None) zero_OrderBook ?b = (?q, None)"
    by (simp add: UnmarshalJSON_def bookname_def decode_books_def row_step_def
        zero_OrderBook_def zero_Book_def)
  from UnmarshalJSON_bids_always_win
    [of "\<lambda>x. ''XBTUSD''" "\<lambda>s. None" zero_OrderBook ?b] run
  have "Asks ?q = Asks zero_OrderBook" by blast
  with run show ?thesis by simp
qed

text \<open>
  C4, as amended. The two rows \<open>[7024.5, 200430]\<close> decode to two books with that price
  and size. For every row list the decoder returns one book for each element, in the
  order of the elements, and never an error on account of a row: an element that is
  a two-element array gives its two numbers, with 0 in the place of an element that
  is not a number, and any other element leaves the zero book at its place.
\<close>

theorem decode_books_one_book_for_each_row:
  "decode_books [JArray [JNumber 7024.5, JNumber 200430], JArray [JNumber 7024.5, JNumber 200430]]
     = [\<lparr>Price = 7024.5, Size = 200430\<rparr>, \<lparr>Price = 7024.5, Size = 200430\<rparr>]
   \<and> length (decode_books body) = length body
   \<and> (\<forall>i < length body.
        decode_books body ! i =
          (case body ! i of
             JArray [a, b] \<Rightarrow> \<lparr>Price = float64_or_zero a, Size = float64_or_zero b\<rparr>
           | _ \<Rightarrow> zero_Book))
   \<and> (json_Unmarshal_map b = Inr inp \<and> inp ''asks'' = Some (JArray rows) \<and>
        inp ''bids'' = Some (JArray body) \<longrightarrow>
        snd (UnmarshalJSON fv tp p b) = None \<and>
        Bids (fst (UnmarshalJSON fv tp p b)) = decode_books body)"
proof -
  have example: "decode_books [JArray [JNumber 7024.5, JNumber 200430],
                               JArray [JNumber 7024.5, JNumber 200430]]
     = [\<lparr>Price = 7024.5, Size = 200430\<rparr>, \<lparr>Price = 7024.5, Size = 200430\<rparr>]"
    by (simp add: decode_books_def row_step_def)
  have rows: "\<forall>i < length body.
        decode_books body ! i =
          (case body ! i of
             JArray [a, b] \<Rightarrow> \<lparr>Price = float64_or_zero a, Size = float64_or_zero b\<rparr>
           | _ \<Rightarrow> zero_Book)"
    using decode_books_nth by blast
  have whole: "snd (UnmarshalJSON fv tp p b) = None \<and>
        Bids (fst (UnmarshalJSON fv tp p b)) = decode_books body"
    if "json_Unmarshal_map b = Inr inp" "inp ''asks'' = Some (JArray rows)"
       "inp ''bids'' = Some (JArray body)"
    using that by (simp add: UnmarshalJSON_def Let_def books_loop_bookname)
  from example rows whole show ?thesis
    by (simp add: length_decode_books)
qed

theorem decode_books_one_book_for_each_row_witness:
  "(0::nat) < length [JArray [JNumber 1, JNumber 2, JNumber 3], JArray [JString ''x'', JNumber 5]]
   \<and> decode_books [JArray [JNumber 1, JNumber 2, JNumber 3], JArray [JString ''x'', JNumber 5]] ! 0
       = zero_Book
   \<and> decode_books [JArray [JNumber 1, JNumber 2, JNumber 3], JArray [JString ''x'', JNumber 5]] ! 1
       = \<lparr>Price = 0, Size = 5\<rparr>
   \<and> snd (UnmarshalJSON (\<lambda>x. []) (\<lambda>s. None) zero_OrderBook
        (Inr (JObject [(''asks'', JArray []),
           (''bids'', JArray [JArray [JNumber 1, JNumber 2, JNumber 3],
                               JArray [JString ''x'', JNumber 5]])]))) = None"
proof -
  let ?body = "[JArray [JNumber 1, JNumber 2, JNumber 3], JArray [JString ''x'', JNumber 5]]"
  let ?b = "Inr (JObject [(''asks'', JArray []), (''bids'', JArray ?body)])"
  let ?inp = "map_of (rev [(''asks'', JArray []), (''bids'', JArray ?body)])"
  note inst = decode_books_one_book_for_each_row
    [of ?body ?b ?inp "[]" "\<lambda>x. []" "\<lambda>s. None" zero_OrderBook]
  have hyp: "json_Unmarshal_map ?b = Inr ?inp \<and> ?inp ''asks'' = Some (JArray []) \<and>
      ?inp ''bids'' = Some (JArray ?body)"
    by simp
  from inst hyp have ok: "snd (UnmarshalJSON (\<lambda>x. []) (\<lambda>s. None) zero_OrderBook ?b) = None"
    by blast
  from inst have nth: "\<forall>i < length ?body.
        decode_books ?body ! i =
          (case ?body ! i of
             JArray [a, b] \<Rightarrow> \<lparr>Price = float64_or_zero a, Size = float64_or_zero b\<rparr>
           | _ \<Rightarrow> zero_Book)"
    by blast
  have r0: "decode_books ?body ! 0 = zero_Book"
    using nth [rule_format, of 0] by simp
  have r1: "decode_books ?body ! 1 = \<lparr>Price = 0, Size = 5\<rparr>"
    using nth [rule_format, of 1] by simp
  from ok r0 r1 show ?thesis by simp
qed

text \<open>
  The claim as the specification states it fails: a row of three elements is not
  skipped, it leaves a zero book in the result.
\<close>

theorem decode_books_malformed_row_counterexample:
  "decode_books [JArray [JNumber 1, JNumber 2, JNumber 3], JArray [JNumber 7024.5, JNumber 200430]]
     = [\<lparr>Price = 0, Size = 0\<rparr>, \<lparr>Price = 7024.5, Size = 200430\<rparr>]
   \<and> decode_books [JArray [JNumber 1, JNumber 2, JNumber 3], JArray [JNumber 7024.5, JNumber 200430]]
     \<noteq> spec_skipping_rows
          [JArray [JNumber 1, JNumber 2, JNumber 3], JArray [JNumber 7024.5, JNumber 200430]]"
  by (simp add: decode_books_def row_step_def zero_Book_def spec_skipping_rows_def)

text \<open>
  C10. Once the text has decoded into a map, \<open>UnmarshalJSON\<close> returns an error exactly
  when the key \<open>asks\<close> or the key \<open>bids\<close> is absent or holds something other than an
  array, and the error is then \<open>data has not type\<close>; the rows inside the two arrays
  play no part in this.
\<close>

theorem UnmarshalJSON_needs_both_arrays:
  assumes "json_Unmarshal_map b = Inr inp"
  shows "((\<forall>xs. inp ''asks'' \<noteq> Some (JArray xs)) \<or> (\<forall>xs. inp ''bids'' \<noteq> Some (JArray xs))
            \<longrightarrow> snd (UnmarshalJSON fv tp p b) = Some ''data has not type'')
       \<and> ((\<exists>xs. inp ''asks'' = Some (JArray xs)) \<and> (\<exists>xs. inp ''bids'' = Some (JArray xs))
            \<longrightarrow> snd (UnmarshalJSON fv tp p b) = None)"
  using assms
  by (auto simp: UnmarshalJSON_def Let_def books_loop_bookname as_array_None_iff
      as_array_Some_iff split: option.splits)

theorem UnmarshalJSON_needs_both_arrays_witness:
  "json_Unmarshal_map (Inr (JObject [(''asks'', JArray [JArray [JNumber 1, JNumber 2]])]))
     = Inr (map_of (rev [(''asks'', JArray [JArray [JNumber 1, JNumber 2]])]))
   \<and> snd (UnmarshalJSON (\<lambda>x. []) (\<lambda>s. None) zero_OrderBook
        (Inr (JObject [(''asks'', JArray [JArray [JNumber 1, JNumber 2]])])))
       = Some ''data has not type''
   \<and> json_Unmarshal_map (Inr (JObject [(''asks'', JArray [JNull]), (''bids'', JArray [])]))
     = Inr (map_of (rev [(''asks'', JArray [JNull]), (''bids'', JArray [])]))
   \<and> snd (UnmarshalJSON (\<lambda>x. []) (\<lambda>s. None) zero_OrderBook
        (Inr (JObject [(''asks'', JArray [JNull]), (''bids'', JArray [])]))) = None"
proof -
  let ?b1 = "Inr (JObject [(''asks'', JArray [JArray [JNumber 1, JNumber 2]])])"
  let ?i1 = "map_of (rev [(''asks'', JArray [JArray [JNumber 1, JNumber 2]])])"
  let ?b2 = "Inr (JObject [(''asks'', JArray [JNull]), (''bids'', JArray [])])"
  let ?i2 = "map_of (rev [(''asks'', JArray [JNull]), (''bids'', JArray [])])"
  have h1: "json_Unmarshal_map ?b1 = Inr ?i1" by simp
  have h2: "json_Unmarshal_map ?b2 = Inr ?i2" by simp
  have a1: "\<forall>xs. ?i1 ''bids'' \<noteq> Some (JArray xs)" by simp
  have a2: "(\<exists>xs. ?i2 ''asks'' = Some (JArray xs)) \<and> (\<exists>xs. ?i2 ''bids'' = Some (JArray xs))"
    by simp
  from UnmarshalJSON_needs_both_arrays [OF h1, of "\<lambda>x. []" "\<lambda>s. None" zero_OrderBook] a1
  have r1: "snd (UnmarshalJSON (\<lambda>x. []) (\<lambda>s. None) zero_OrderBook ?b1) = Some ''data has not type''"
    by blast
  from UnmarshalJSON_needs_both_arrays [OF h2, of "\<lambda>x. []" "\<lambda>s. None" zero_OrderBook] a2
  have r2: "snd (UnmarshalJSON (\<lambda>x. []) (\<lambda>s. None) zero_OrderBook ?b2) = None"
    by blast
  from h1 h2 r1 r2 show ?thesis by blast
qed

section \<open>Properties of the string functions, the clock and the request builders\<close>

lemma HasPrefix_iff_prefix: "HasPrefix s pre \<longleftrightarrow> prefix pre s"
  by (auto simp: HasPrefix_def prefix_def) (metis append_eq_conv_conj)

lemma HasSuffix_iff_suffix: "HasSuffix s suf \<longleftrightarrow> suffix suf s"
proof
  assume "HasSuffix s suf"
  then have "s = take (length s - length suf) s @ suf"
    by (metis HasSuffix_def append_take_drop_id)
  then show "suffix suf s" by (rule suffixI)
next
  assume "suffix suf s"
  then obtain zs where "s = zs @ suf" by (auto simp: suffix_def)
  then show "HasSuffix s suf" by (simp add: HasSuffix_def)
qed

lemma HasPrefix_colon: "HasPrefix (c # cs) '':'' \<longleftrightarrow> c = CHR '':''"
  by (simp add: HasPrefix_def)

lemma Index_first_colon:
  "CHR '':'' \<notin> set pre \<Longrightarrow> Index (pre @ '':'' @ symb) '':'' = int (length pre)"
  by (induction pre) (auto simp: HasPrefix_colon Let_def)

lemma Unix_Add_minutes: "Unix (Add t (n * Minute)) = Unix t + n * 60"
proof -
  have "t + n * (60 * 1000000000) = t + (n * 60) * 1000000000" by simp
  then have "(t + n * (60 * 1000000000)) div 1000000000 = n * 60 + t div 1000000000"
    by (simp only: div_mult_self1)
  then show ?thesis by (simp add: Unix_def Add_def Minute_def)
qed

lemma fold_append_args:
  "fold (\<lambda>s args. args @ [g s]) syms acc = acc @ map g syms"
  by (induction syms arbitrary: acc) simp_all

lemma fold_cross_args:
  "fold (\<lambda>c args. fold (\<lambda>s args. args @ [h c s]) syms args) channels acc
     = acc @ concat (map (\<lambda>c. map (h c) syms) channels)"
  by (induction channels arbitrary: acc) (simp_all add: fold_append_args)

lemma subscribe_requests_Some:
  "subscribe_requests channels (Some syms) =
     [\<lparr>Op = ''subscribe'',
       Args = concat (map (\<lambda>c. map (\<lambda>s. AStr (c @ '':'' @ s)) syms) channels), ID = 0\<rparr>]"
  by (simp add: subscribe_requests_def fold_cross_args)

lemma subscribe_requests_None:
  "subscribe_requests channels None =
     [\<lparr>Op = ''subscribe'', Args = map AStr channels, ID = 0\<rparr>]"
  by (simp add: subscribe_requests_def fold_append_args)

lemma Sprintf_d_example: "Sprintf_d 1500086400 = ''1500086400''"
  by (simp add: Sprintf_d_def dec_digits.simps digit_char_def)

lemma Sprintf_d_negative: "Sprintf_d (- 42) = ''-42''"
  by (simp add: Sprintf_d_def dec_digits.simps digit_char_def)

lemma EncodeToString_example: "EncodeToString [CHR 0xAB, CHR 0x01, CHR ''z''] = ''ab017a''"
  by (simp add: EncodeToString_def digit_char_def)

section \<open>Claims about the symbol, the subscription and the authentication\<close>

text \<open>
  C5, as amended. For a topic \<open>prefix:symbol\<close>, where the prefix holds no colon, the
  symbol of the event is the text after the first colon, provided the topic does not
  end in one of the three known symbols; a topic that ends in \<open>XBTUSD\<close>, \<open>ETHUSD\<close> (the
  constants of package \<open>bitmex\<close>) or \<open>XRPUSD\<close> gets that known symbol, the first of
  them that matches in this order.
\<close>

theorem productCode_after_first_colon:
  "(CHR '':'' \<notin> set pre \<and> \<not> HasSuffix (pre @ '':'' @ symb) (XBTUSD w) \<and>
      \<not> HasSuffix (pre @ '':'' @ symb) (ETHUSD w) \<and>
      \<not> HasSuffix (pre @ '':'' @ symb) ''XRPUSD''
      \<longrightarrow> productCode w (pre @ '':'' @ symb) = symb)
   \<and> (HasSuffix name (XBTUSD w) \<longrightarrow> productCode w name = XBTUSD w)
   \<and> (\<not> HasSuffix name (XBTUSD w) \<and> HasSuffix name (ETHUSD w)
      \<longrightarrow> productCode w name = ETHUSD w)
   \<and> (\<not> HasSuffix name (XBTUSD w) \<and> \<not> HasSuffix name (ETHUSD w) \<and>
      HasSuffix name ''XRPUSD'' \<longrightarrow> productCode w name = ''XRPUSD'')"
proof -
  have colon: "productCode w (pre @ '':'' @ symb) = symb"
    if "CHR '':'' \<notin> set pre" "\<not> HasSuffix (pre @ '':'' @ symb) (XBTUSD w)"
       "\<not> HasSuffix (pre @ '':'' @ symb) (ETHUSD w)"
       "\<not> HasSuffix (pre @ '':'' @ symb) ''XRPUSD''"
  proof -
    have idx: "Index (pre @ '':'' @ symb) '':'' = int (length pre)"
      using that(1) by (rule Index_first_colon)
    have c: "Contains (pre @ '':'' @ symb) '':''"
      unfolding Contains_def idx by simp
    have d: "drop (nat (Index (pre @ '':'' @ symb) '':'' + 1)) (pre @ '':'' @ symb) = symb"
      unfolding idx by (simp add: nat_add_distrib)
    show ?thesis
      unfolding productCode_def by (simp only: that(2,3,4) c d if_False if_True)
  qed
  have x: "productCode w name = XBTUSD w" if "HasSuffix name (XBTUSD w)"
    unfolding productCode_def by (simp only: that if_True)
  have e: "productCode w name = ETHUSD w"
    if "\<not> HasSuffix name (XBTUSD w)" "HasSuffix name (ETHUSD w)"
    unfolding productCode_def by (simp only: that if_True if_False)
  have r: "productCode w name = ''XRPUSD''"
    if "\<not> HasSuffix name (XBTUSD w)" "\<not> HasSuffix name (ETHUSD w)" "HasSuffix name ''XRPUSD''"
    unfolding productCode_def by (simp only: that if_True if_False)
  from colon x e r show ?thesis by blast
qed

theorem productCode_after_first_colon_witness:
  "CHR '':'' \<notin> set ''trade'' \<and> \<not> HasSuffix ''trade:LTCUSD'' (XBTUSD quiet_world) \<and>
   \<not> HasSuffix ''trade:LTCUSD'' (ETHUSD quiet_world) \<and> \<not> HasSuffix ''trade:LTCUSD'' ''XRPUSD'' \<and>
   productCode quiet_world ''trade:LTCUSD'' = ''LTCUSD'' \<and>
   HasSuffix ''trade:XBTUSD'' (XBTUSD quiet_world) \<and>
   productCode quiet_world ''trade:XBTUSD'' = ''XBTUSD''"
proof -
  have h: "CHR '':'' \<notin> set ''trade'' \<and> \<not> HasSuffix ''trade:LTCUSD'' (XBTUSD quiet_world) \<and>
      \<not> HasSuffix ''trade:LTCUSD'' (ETHUSD quiet_world) \<and> \<not> HasSuffix ''trade:LTCUSD'' ''XRPUSD''"
    by (simp add: HasSuffix_def quiet_world_def)
  have k: "HasSuffix ''trade:XBTUSD'' (XBTUSD quiet_world)"
    by (simp add: HasSuffix_def quiet_world_def)
  have x: "XBTUSD quiet_world = ''XBTUSD''"
    by (simp add: quiet_world_def)
  from productCode_after_first_colon [of "''trade''" "''LTCUSD''" quiet_world "''trade:XBTUSD''"] h k x
  show ?thesis by simp
qed

text \<open>
  The claim as the specification states it fails on a topic whose symbol only ends in
  a known symbol: the text after the colon is \<open>AXRPUSD\<close>, the symbol derived is
  \<open>XRPUSD\<close>.
\<close>

theorem productCode_known_suffix_counterexample:
  "CHR '':'' \<notin> set ''trade'' \<and>
   productCode quiet_world (''trade'' @ '':'' @ ''AXRPUSD'') = ''XRPUSD'' \<and>
   productCode quiet_world (''trade'' @ '':'' @ ''AXRPUSD'') \<noteq> ''AXRPUSD''"
  by (simp add: productCode_def quiet_world_def HasSuffix_def)

text \<open>
  C6, as amended. \<open>subscribe\<close> builds exactly one request. With a symbol list that is
  not \<open>nil\<close> its arguments are the cross product \<open>channel:symbol\<close>, channel-major and
  symbol-minor; this includes an empty list that is not \<open>nil\<close>, for which the request
  has no arguments. With the \<open>nil\<close> symbol list its arguments are the bare channel
  names in order. The request built is what \<open>subscribe\<close> writes and, when the write
  succeeds, returns.
\<close>

theorem subscribe_builds_one_request:
  "subscribe_requests channels (Some syms) =
     [\<lparr>Op = ''subscribe'',
       Args = concat (map (\<lambda>c. map (\<lambda>s. AStr (c @ '':'' @ s)) syms) channels), ID = 0\<rparr>]
   \<and> subscribe_requests channels None =
     [\<lparr>Op = ''subscribe'', Args = map AStr channels, ID = 0\<rparr>]
   \<and> subscribe_requests [''trade'', ''quote''] (Some [''XBTUSD'', ''ETHUSD'']) =
     [\<lparr>Op = ''subscribe'',
       Args = [AStr ''trade:XBTUSD'', AStr ''trade:ETHUSD'',
               AStr ''quote:XBTUSD'', AStr ''quote:ETHUSD''], ID = 0\<rparr>]
   \<and> subscribe_requests [''order''] None = [\<lparr>Op = ''subscribe'', Args = [AStr ''order''], ID = 0\<rparr>]
   \<and> subscribe w channels symbols =
       (case WriteJSON w (hd (subscribe_requests channels symbols)) of
          None \<Rightarrow> ([Write (hd (subscribe_requests channels symbols)) None],
                    Inr (subscribe_requests channels symbols))
        | Some err \<Rightarrow> ([Write (hd (subscribe_requests channels symbols)) (Some err)], Inl err))"
proof -
  have one: "\<exists>r. subscribe_requests channels symbols = [r]"
    by (cases symbols) (simp_all add: subscribe_requests_Some subscribe_requests_None)
  then obtain r where r: "subscribe_requests channels symbols = [r]" ..
  have written: "subscribe w channels symbols =
       (case WriteJSON w (hd (subscribe_requests channels symbols)) of
          None \<Rightarrow> ([Write (hd (subscribe_requests channels symbols)) None],
                    Inr (subscribe_requests channels symbols))
        | Some err \<Rightarrow> ([Write (hd (subscribe_requests channels symbols)) (Some err)], Inl err))"
    by (simp add: subscribe_def r split: option.splits)
  show ?thesis
    using written by (simp add: subscribe_requests_Some subscribe_requests_None)
qed

text \<open>
  The claim as the specification states it fails for a symbol list that is empty but
  not \<open>nil\<close>: the test is \<open>symbols != nil\<close>, the cross product is taken, and the one
  request has no arguments instead of the bare channel name.
\<close>

theorem subscribe_empty_symbols_counterexample:
  "subscribe_requests [''order''] (Some []) = [\<lparr>Op = ''subscribe'', Args = [], ID = 0\<rparr>]
   \<and> subscribe_requests [''order''] (Some [])
       \<noteq> [\<lparr>Op = ''subscribe'', Args = [AStr ''order''], ID = 0\<rparr>]"
  by (simp add: subscribe_requests_def)

text \<open>
  C7. For every credential and current time the authentication request has the
  operation \<open>authKeyExpires\<close>, the id 1 and three arguments in the order key
  identifier, expiry, signature: the expiry is the current time in epoch seconds plus
  86400, the seconds of 24 hours, and the signature is the hexadecimal text of the
  HMAC-SHA256, keyed by the secret, of \<open>GET/realtime\<close> followed by the expiry in
  decimal. \<open>signture\<close> writes this request and returns the error of the write.
\<close>

theorem signture_request_shape:
  "signture_request w a =
     \<lparr>Op = ''authKeyExpires'',
      Args = [AStr (Key a),
              AInt (Unix (Now w) + 24 * 60 * 60),
              AStr (EncodeToString (hmac_sha256 w (Secret a)
                      (''GET/realtime'' @ Sprintf_d (Unix (Now w) + 24 * 60 * 60))))],
      ID = 1\<rparr>
   \<and> signture w a =
       ([Write (signture_request w a) (WriteJSON w (signture_request w a))],
        WriteJSON w (signture_request w a))"
  by (simp add: signture_request_def signture_def Let_def Unix_Add_minutes)

section \<open>Properties of the classifier and the read loop\<close>

lemma first_prefix_None_iff:
  "first_prefix tbl name = None \<longleftrightarrow> (\<forall>p \<in> set tbl. \<not> HasPrefix name (fst p))"
  by (induction tbl name rule: first_prefix.induct) auto

lemma classify_None_iff:
  "classify name = None \<longleftrightarrow> (\<forall>p \<in> set known_prefixes. \<not> HasPrefix name (fst p))"
  by (simp add: classify_def first_prefix_None_iff)

lemma read_loop_append:
  "read_loop w before = (t, None) \<Longrightarrow>
   read_loop w (before @ evs) = (t @ fst (read_loop w evs), snd (read_loop w evs))"
proof (induction w before arbitrary: t rule: read_loop.induct)
  case (1 w)
  then show ?case by simp
next
  case (2 w e evs')
  then show ?case by simp
next
  case (3 w f ctx evs')
  then show ?case
    by (auto split: option.splits prod.splits)
qed

lemma read_loop_no_unsubscribe: "filter is_unsubscribe (fst (read_loop w script)) = []"
  by (induction w script rule: read_loop.induct) (auto split: option.splits prod.splits)

lemma read_loop_returns_on_read_error:
  "ReadErr e \<in> set script \<Longrightarrow> \<exists>t err. read_loop w script = (t, Some err)"
  by (induction w script rule: read_loop.induct) (auto split: option.splits prod.splits)

lemma read_loop_cause:
  "read_loop w script = (t, Some err) \<Longrightarrow>
   (\<exists>e. ReadErr e \<in> set script \<and> err = receive_error e) \<or>
   (\<exists>f. ReadMsg f (Some err) \<in> set script)"
  by (induction w script arbitrary: t rule: read_loop.induct)
     (auto split: option.splits prod.splits)

lemma signture_no_unsubscribe: "filter is_unsubscribe (fst (signture w a)) = []"
  by (simp add: signture_def signture_request_def Let_def)

lemma subscribe_requests_single:
  "\<exists>r. subscribe_requests channels symbols = [r] \<and> Op r = ''subscribe''"
  by (cases symbols) (simp_all add: subscribe_requests_def)

lemma subscribe_result:
  "subscribe w channels symbols =
     (case WriteJSON w (hd (subscribe_requests channels symbols)) of
        None \<Rightarrow> ([Write (hd (subscribe_requests channels symbols)) None],
                  Inr (subscribe_requests channels symbols))
      | Some err \<Rightarrow> ([Write (hd (subscribe_requests channels symbols)) (Some err)], Inl err))"
proof -
  obtain r where r: "subscribe_requests channels symbols = [r]"
    using subscribe_requests_single by blast
  show ?thesis by (simp add: subscribe_def r split: option.splits)
qed


section \<open>Properties of the session\<close>

lemma Connect_streaming:
  assumes "Dial w = None"
    and "(case ctx_auth of None \<Rightarrow> None | Some a \<Rightarrow> WriteJSON w (signture_request w a)) = None"
    and "snd (subscribe w channels symbols) = Inr requests"
  shows "Connect w ctx_auth channels symbols script =
     (case read_loop w script of
        (t3, None) \<Rightarrow>
          ((case ctx_auth of None \<Rightarrow> [] | Some a \<Rightarrow> fst (signture w a))
             @ fst (subscribe w channels symbols) @ t3, Running)
      | (t3, Some err) \<Rightarrow>
          ((case ctx_auth of None \<Rightarrow> [] | Some a \<Rightarrow> fst (signture w a))
             @ fst (subscribe w channels symbols) @ t3 @ unsubscribe w requests @ [CloseConn],
           Returned (if Contains err Canceled then Some (''context stop outside '' @ err)
                     else None)))"
proof (cases ctx_auth)
  case None
  with assms(1,3) show ?thesis
    by (cases "subscribe w channels symbols")
       (auto simp: Connect_def New_def split: prod.splits option.splits sum.splits)
next
  case (Some a)
  with assms show ?thesis
    by (cases "subscribe w channels symbols")
       (auto simp: Connect_def New_def signture_def Let_def
          split: prod.splits option.splits sum.splits)
qed

lemma subscribe_Inr:
  assumes "snd (subscribe w channels symbols) = Inr requests"
  shows "requests = subscribe_requests channels symbols"
  using assms by (simp add: subscribe_result split: option.splits)

lemmas run_defs =
  Connect_def New_def quiet_world_def subscribe_def subscribe_requests_def signture_def
  handle_frame_def decode_kind_def GetString_def Get_def classify_def known_prefixes_def
  HasPrefix_def HasSuffix_def Contains_def productCode_def zero_Response_def
  unknown_frame_def trade_frame_def Canceled_def receive_error_def Let_def

section \<open>Claims about the session\<close>

text \<open>
  C1, as amended. In a session that is streaming, when a read fails with the error
  \<open>e\<close>, the read loop ends with the error \<open>can't receive error: e\<close>, the unsubscribe
  requests are written and the connection is closed, and \<open>Connect\<close> returns \<open>nil\<close>;
  only when the text of that error contains \<open>context canceled\<close> does \<open>Connect\<close>
  return an error, which is \<open>context stop outside\<close> followed by that text.
\<close>

theorem read_error_ends_session:
  assumes "Dial w = None"
    and "(case ctx_auth of None \<Rightarrow> None | Some a \<Rightarrow> WriteJSON w (signture_request w a)) = None"
    and "snd (subscribe w channels symbols) = Inr requests"
    and "read_loop w before = (t, None)"
  shows "snd (Connect w ctx_auth channels symbols (before @ ReadErr e # rest)) =
           Returned (if Contains (receive_error e) Canceled
                     then Some (''context stop outside '' @ receive_error e) else None)
       \<and> (\<exists>t'. fst (Connect w ctx_auth channels symbols (before @ ReadErr e # rest)) =
                  t' @ [ReadMessage] @ unsubscribe w requests @ [CloseConn])"
proof -
  have loop: "read_loop w (before @ ReadErr e # rest) = (t @ [ReadMessage], Some (receive_error e))"
    using read_loop_append [OF assms(4), of "ReadErr e # rest"] by simp
  show ?thesis
    by (simp add: Connect_streaming [OF assms(1,2,3)] loop)
qed

theorem read_error_ends_session_witness:
  "Dial quiet_world = None
   \<and> snd (subscribe quiet_world [''trade''] None)
       = Inr [\<lparr>Op = ''subscribe'', Args = [AStr ''trade''], ID = 0\<rparr>]
   \<and> snd (read_loop quiet_world [ReadMsg unknown_frame None]) = None
   \<and> snd (Connect quiet_world None [''trade''] None
            ([ReadMsg unknown_frame None] @ ReadErr ''i/o timeout'' # [])) = Returned None
   \<and> snd (Connect quiet_world None [''trade''] None
            ([ReadMsg unknown_frame None] @ ReadErr ''context canceled'' # []))
       = Returned (Some (''context stop outside '' @ receive_error ''context canceled''))"
proof -
  let ?reqs = "[\<lparr>Op = ''subscribe'', Args = [AStr ''trade''], ID = 0\<rparr>]"
  have h1: "Dial quiet_world = None"
    by (simp add: quiet_world_def)
  have h2: "(case None :: Auth option of None \<Rightarrow> None
             | Some a \<Rightarrow> WriteJSON quiet_world (signture_request quiet_world a)) = None"
    by simp
  have h3: "snd (subscribe quiet_world [''trade''] None) = Inr ?reqs"
    by (simp add: run_defs)
  obtain t where h4: "read_loop quiet_world [ReadMsg unknown_frame None] = (t, None)"
    by (simp add: run_defs)
  have c1: "\<not> Contains (receive_error ''i/o timeout'') Canceled"
    by (simp add: run_defs)
  have c2: "Contains (receive_error ''context canceled'') Canceled"
    by (simp add: run_defs)
  from read_error_ends_session [OF h1 h2 h3 h4, of "''i/o timeout''" "[]"] c1
  have r1: "snd (Connect quiet_world None [''trade''] None
            ([ReadMsg unknown_frame None] @ ReadErr ''i/o timeout'' # [])) = Returned None"
    by simp
  from read_error_ends_session [OF h1 h2 h3 h4, of "''context canceled''" "[]"] c2
  have r2: "snd (Connect quiet_world None [''trade''] None
            ([ReadMsg unknown_frame None] @ ReadErr ''context canceled'' # []))
       = Returned (Some (''context stop outside '' @ receive_error ''context canceled''))"
    by simp
  from h1 h3 h4 r1 r2 show ?thesis by simp
qed

text \<open>
  The claim as the specification states it fails: after a read that fails with
  \<open>i/o timeout\<close> the session is torn down and \<open>Connect\<close> returns \<open>nil\<close>.
\<close>

theorem read_error_returns_nil_counterexample:
  "snd (read_loop quiet_world [ReadErr ''i/o timeout'']) = Some (receive_error ''i/o timeout'')
   \<and> Connect quiet_world None [''trade''] None [ReadErr ''i/o timeout'']
       = ([Write \<lparr>Op = ''subscribe'', Args = [AStr ''trade''], ID = 0\<rparr> None,
           ReadMessage,
           Write \<lparr>Op = ''unsubscribe'', Args = [AStr ''trade''], ID = 0\<rparr> None,
           CloseConn],
          Returned None)"
  by (simp add: run_defs)

text \<open>
  C2. When dialling fails, \<open>New\<close> returns \<open>nil\<close>, and \<open>Connect\<close> goes on to read
  \<open>p.Auth\<close> from it: the call panics instead of returning an error. Nothing is
  written to or read from a connection before.
\<close>

theorem Connect_panics_when_dial_fails:
  assumes "Dial w = Some err"
  shows "Connect w ctx_auth channels symbols script = ([], Panic)"
  using assms by (simp add: Connect_def New_def)

theorem Connect_panics_when_dial_fails_witness:
  "Dial (quiet_world\<lparr>Dial := Some ''connection refused''\<rparr>) = Some ''connection refused''
   \<and> Connect (quiet_world\<lparr>Dial := Some ''connection refused''\<rparr>)
        (Some \<lparr>Key = ''key'', Secret = ''secret''\<rparr>) [''trade''] None [ReadErr ''i/o timeout'']
       = ([], Panic)"
proof -
  have h: "Dial (quiet_world\<lparr>Dial := Some ''connection refused''\<rparr>) = Some ''connection refused''"
    by simp
  from Connect_panics_when_dial_fails [OF h] h show ?thesis by simp
qed

text \<open>
  C8, as amended. For a frame whose \<open>table\<close> field is a string, which has a \<open>data\<close>
  field and whose topic begins with none of the known prefixes, the event built has the
  kind \<open>Undefined\<close>, which prints as \<open>undefined\<close>, and carries the text of the frame
  as its error. It is pushed to the channel if the context is not done when the
  \<open>select\<close> after the frame runs; if the context is done, the read loop returns the
  error of the context and the event is not pushed.
\<close>

theorem unknown_topic_gives_undefined_event:
  assumes "GetString f ''table'' = Some name"
    and "Get f ''data'' = Some data"
    and "\<forall>p \<in> set known_prefixes. \<not> HasPrefix name (fst p)"
  shows "\<exists>r. handle_frame w f = Some r \<and> Types r = Undefined \<and>
           Types_String (Types r) = ''undefined'' \<and> Results r = Some (msg f) \<and>
           read_loop w (ReadMsg f None # evs)
             = (ReadMessage # Push r # fst (read_loop w evs), snd (read_loop w evs)) \<and>
           read_loop w (ReadMsg f (Some ctx_err) # evs) = ([ReadMessage], Some ctx_err)"
proof -
  have c: "classify name = None"
    using assms(3) by (simp add: classify_None_iff)
  let ?r = "zero_Response\<lparr>Action := (case GetString f ''action'' of None \<Rightarrow> [] | Some a \<Rightarrow> a),
              Types := Undefined, Results := Some (msg f), ProductCode := productCode w name\<rparr>"
  have h: "handle_frame w f = Some ?r"
    by (simp add: handle_frame_def decode_kind_def assms(1,2) c Let_def)
  have l1: "read_loop w (ReadMsg f None # evs)
             = (ReadMessage # Push ?r # fst (read_loop w evs), snd (read_loop w evs))"
    by (simp add: h split: prod.splits)
  have l2: "read_loop w (ReadMsg f (Some ctx_err) # evs) = ([ReadMessage], Some ctx_err)"
    by (simp add: h)
  from h l1 l2 show ?thesis by simp
qed

theorem unknown_topic_gives_undefined_event_witness:
  "GetString unknown_frame ''table'' = Some ''foo''
   \<and> Get unknown_frame ''data'' = Some (JArray [])
   \<and> classify ''foo'' = None
   \<and> (\<exists>r. read_loop quiet_world (ReadMsg unknown_frame None # []) = ([ReadMessage, Push r], None)
          \<and> Types r = Undefined \<and> Results r = Some (msg unknown_frame))"
proof -
  have h1: "GetString unknown_frame ''table'' = Some ''foo''"
    by (simp add: GetString_def unknown_frame_def)
  have h2: "Get unknown_frame ''data'' = Some (JArray [])"
    by (simp add: Get_def unknown_frame_def)
  have c: "classify ''foo'' = None"
    by (simp add: classify_def known_prefixes_def HasPrefix_def)
  then have h3: "\<forall>p \<in> set known_prefixes. \<not> HasPrefix ''foo'' (fst p)"
    by (simp only: classify_None_iff)
  from unknown_topic_gives_undefined_event [OF h1 h2 h3, of quiet_world "[]"]
  have "\<exists>r. read_loop quiet_world (ReadMsg unknown_frame None # []) = ([ReadMessage, Push r], None)
          \<and> Types r = Undefined \<and> Results r = Some (msg unknown_frame)"
    by auto
  with h1 h2 c show ?thesis by blast
qed

text \<open>
  The claim as the specification states it fails when the context has been cancelled
  by the time the frame has been handled: the loop returns and nothing is pushed.
\<close>

theorem unknown_topic_cancelled_counterexample:
  "GetString unknown_frame ''table'' = Some ''foo''
   \<and> Get unknown_frame ''data'' = Some (JArray [])
   \<and> classify ''foo'' = None
   \<and> read_loop quiet_world [ReadMsg unknown_frame (Some Canceled)] = ([ReadMessage], Some Canceled)"
  by (simp add: run_defs)

text \<open>
  C9. In a session whose subscribe request has been written, when the read loop
  returns, be it on a read error or on the cancellation of the context, the trace of
  \<open>Connect\<close> ends with one write of the subscribe request with its operation set to
  \<open>unsubscribe\<close> and its arguments unchanged, followed by the close of the
  connection; no other write of the trace is an unsubscribe, so it runs exactly once.
  A read loop that has returned has done so for one of these two reasons.
\<close>

theorem unsubscribe_runs_once_at_teardown:
  assumes "Dial w = None"
    and "(case ctx_auth of None \<Rightarrow> None | Some a \<Rightarrow> WriteJSON w (signture_request w a)) = None"
    and "snd (subscribe w channels symbols) = Inr requests"
    and "read_loop w script = (t3, Some err)"
  shows "(\<exists>t r. fst (Connect w ctx_auth channels symbols script)
                  = t @ [Write (r\<lparr>Op := ''unsubscribe''\<rparr>) (WriteJSON w (r\<lparr>Op := ''unsubscribe''\<rparr>)),
                         CloseConn]
               \<and> filter is_unsubscribe t = []
               \<and> requests = [r] \<and> Op r = ''subscribe''
               \<and> Write r None \<in> set t)
       \<and> length (filter is_unsubscribe (fst (Connect w ctx_auth channels symbols script))) = 1
       \<and> ((\<exists>e. ReadErr e \<in> set script \<and> err = receive_error e) \<or>
           (\<exists>f. ReadMsg f (Some err) \<in> set script))"
proof -
  obtain r where r: "subscribe_requests channels symbols = [r]" "Op r = ''subscribe''"
    using subscribe_requests_single by blast
  have req: "requests = [r]"
    using subscribe_Inr [OF assms(3)] r(1) by simp
  have wr: "fst (subscribe w channels symbols) = [Write r None]"
    using assms(3) r(1) by (simp add: subscribe_result split: option.splits)
  let ?t1 = "case ctx_auth of None \<Rightarrow> [] | Some a \<Rightarrow> fst (signture w a)"
  let ?u = "Write (r\<lparr>Op := ''unsubscribe''\<rparr>) (WriteJSON w (r\<lparr>Op := ''unsubscribe''\<rparr>))"
  define T where "T = ?t1 @ [Write r None] @ t3"
  have trace: "fst (Connect w ctx_auth channels symbols script) = T @ [?u, CloseConn]"
    by (simp add: Connect_streaming [OF assms(1,2,3)] assms(4) wr req Let_def T_def)
  have t1: "filter is_unsubscribe ?t1 = []"
    by (cases ctx_auth) (simp_all add: signture_no_unsubscribe)
  have t3: "filter is_unsubscribe t3 = []"
    using read_loop_no_unsubscribe [of w script] assms(4) by simp
  have clean: "filter is_unsubscribe T = []"
    by (simp add: T_def t1 t3 r(2))
  have mem: "Write r None \<in> set T"
    by (simp add: T_def)
  have once: "length (filter is_unsubscribe (fst (Connect w ctx_auth channels symbols script))) = 1"
    by (simp add: trace clean)
  from trace clean req r(2) mem
  have first: "\<exists>t r. fst (Connect w ctx_auth channels symbols script)
                  = t @ [Write (r\<lparr>Op := ''unsubscribe''\<rparr>) (WriteJSON w (r\<lparr>Op := ''unsubscribe''\<rparr>)),
                         CloseConn]
               \<and> filter is_unsubscribe t = []
               \<and> requests = [r] \<and> Op r = ''subscribe''
               \<and> Write r None \<in> set t"
    by blast
  from first once read_loop_cause [OF assms(4)] show ?thesis by blast
qed

theorem unsubscribe_runs_once_at_teardown_witness:
  "length (filter is_unsubscribe (fst (Connect quiet_world None [''trade''] (Some [''XBTUSD''])
      [ReadMsg trade_frame None, ReadErr ''i/o timeout'']))) = 1
   \<and> length (filter is_unsubscribe (fst (Connect quiet_world
      (Some \<lparr>Key = ''key'', Secret = ''secret''\<rparr>) [''trade''] (Some [''XBTUSD''])
      [ReadMsg unknown_frame None, ReadMsg trade_frame (Some Canceled)]))) = 1
   \<and> Connect quiet_world None [''trade''] (Some [''XBTUSD''])
        [ReadMsg trade_frame None, ReadErr ''i/o timeout'']
       = ([Write \<lparr>Op = ''subscribe'', Args = [AStr ''trade:XBTUSD''], ID = 0\<rparr> None,
           ReadMessage,
           Push \<lparr>Types = Trade, ProductCode = ''XBTUSD'', Action = ''insert'',
                 Orderbook_rows = [], Payload = Some (), Results = None\<rparr>,
           ReadMessage,
           Write \<lparr>Op = ''unsubscribe'', Args = [AStr ''trade:XBTUSD''], ID = 0\<rparr> None,
           CloseConn],
          Returned None)"
proof -
  let ?a = "\<lparr>Key = ''key'', Secret = ''secret''\<rparr>"
  let ?reqs = "[\<lparr>Op = ''subscribe'', Args = [AStr ''trade:XBTUSD''], ID = 0\<rparr>]"
  let ?s1 = "[ReadMsg trade_frame None, ReadErr ''i/o timeout'']"
  let ?s2 = "[ReadMsg unknown_frame None, ReadMsg trade_frame (Some Canceled)]"
  have h1: "Dial quiet_world = None"
    by (simp add: quiet_world_def)
  have h2: "(case None :: Auth option of None \<Rightarrow> None
             | Some a \<Rightarrow> WriteJSON quiet_world (signture_request quiet_world a)) = None"
    by simp
  have h2': "(case Some ?a of None \<Rightarrow> None
             | Some a \<Rightarrow> WriteJSON quiet_world (signture_request quiet_world a)) = None"
    by (simp add: quiet_world_def)
  have h3: "snd (subscribe quiet_world [''trade''] (Some [''XBTUSD''])) = Inr ?reqs"
    by (simp add: run_defs)
  obtain t1 e1 where l1: "read_loop quiet_world ?s1 = (t1, Some e1)"
    by (simp add: run_defs)
  obtain t2 e2 where l2: "read_loop quiet_world ?s2 = (t2, Some e2)"
    by (simp add: run_defs)
  from unsubscribe_runs_once_at_teardown [OF h1 h2 h3 l1]
  have r1: "length (filter is_unsubscribe (fst (Connect quiet_world None [''trade'']
              (Some [''XBTUSD'']) ?s1))) = 1"
    by blast
  from unsubscribe_runs_once_at_teardown [OF h1 h2' h3 l2]
  have r2: "length (filter is_unsubscribe (fst (Connect quiet_world (Some ?a) [''trade'']
              (Some [''XBTUSD'']) ?s2))) = 1"
    by blast
  have run: "Connect quiet_world None [''trade''] (Some [''XBTUSD'']) ?s1
       = ([Write \<lparr>Op = ''subscribe'', Args = [AStr ''trade:XBTUSD''], ID = 0\<rparr> None,
           ReadMessage,
           Push \<lparr>Types = Trade, ProductCode = ''XBTUSD'', Action = ''insert'',
                 Orderbook_rows = [], Payload = Some (), Results = None\<rparr>,
           ReadMessage,
           Write \<lparr>Op = ''unsubscribe'', Args = [AStr ''trade:XBTUSD''], ID = 0\<rparr> None,
           CloseConn],
          Returned None)"
    by (simp add: run_defs)
  from r1 r2 run show ?thesis by blast
qed

end
